theory Spec2Isabelle
  imports Main
begin

section \<open>Values, exceptions and the device record\<close>

text \<open>
  The Python values that travel through \<^verbatim>\<open>media_player/firetv.py\<close>: \<^verbatim>\<open>None\<close>, booleans,
  strings, lists and dictionaries with string keys. Strings are lists of 8-bit characters.
\<close>

datatype pyval =
    PNone
  | PBool bool
  | PStr string
  | PList "pyval list"
  | PDict "(string \<times> pyval) list"

text \<open>Python truthiness, as \<^verbatim>\<open>if x\<close> and \<^verbatim>\<open>not x\<close> test it.\<close>

fun truthy :: "pyval \<Rightarrow> bool" where
  "truthy PNone = False"
| "truthy (PBool b) = b"
| "truthy (PStr s) = (s \<noteq> [])"
| "truthy (PList xs) = (xs \<noteq> [])"
| "truthy (PDict kvs) = (kvs \<noteq> [])"

text \<open>
  An exception is represented by the class of the tuple \<^verbatim>\<open>self._exceptions\<close> that it is an
  instance of; \<open>OtherException\<close> stands for every exception that is an instance of none of the
  seven (the string names its class).
\<close>

datatype exn =
    TypeError
  | ValueError
  | AttributeError
  | BrokenPipeError
  | InvalidCommandError
  | InvalidResponseError
  | InvalidChecksumError
  | OtherException string

datatype playback =
    STATE_UNKNOWN
  | STATE_OFF
  | STATE_IDLE
  | STATE_STANDBY
  | STATE_PLAYING
  | STATE_PAUSED

definition PACKAGE_LAUNCHER :: string where
  "PACKAGE_LAUNCHER = ''com.amazon.tv.launcher''"

definition PACKAGE_SETTINGS :: string where
  "PACKAGE_SETTINGS = ''com.amazon.tv.settings''"

text \<open>Durations in microseconds, the resolution of \<^verbatim>\<open>datetime.timedelta\<close>.\<close>

definition MIN_TIME :: nat where
  "MIN_TIME = 10000"

definition SLEEP_TIME :: nat where
  "SLEEP_TIME = 100000"

text \<open>
  The attributes of a \<^verbatim>\<open>FireTVDevice\<close>. \<open>firetv_adb\<close> is \<^verbatim>\<open>self._firetv._adb\<close>, the connection
  handle: \<open>None\<close> when disconnected, \<open>Some h\<close> for a connection object \<open>h\<close>.
\<close>

record FireTVDevice =
  host :: string
  adbkey :: string
  firetv_adb :: "nat option"
  adb_lock :: bool
  exceptions :: "exn list"
  name :: string
  state :: playback
  running_apps :: pyval
  current_app :: pyval
  get_source :: bool
  get_sources :: bool

text \<open>
  \<^verbatim>\<open>__init__\<close>; the last argument is the handle that the constructor \<^verbatim>\<open>FireTV(host, adbkey)\<close>
  of the ADB client library leaves behind.
\<close>

definition init :: "string \<Rightarrow> string \<Rightarrow> string \<Rightarrow> bool \<Rightarrow> bool \<Rightarrow> nat option \<Rightarrow> FireTVDevice" where
  "init h n k gs gss a =
     \<lparr> host = h, adbkey = k, firetv_adb = a, adb_lock = False,
       exceptions = [TypeError, ValueError, AttributeError, BrokenPipeError,
                     InvalidCommandError, InvalidResponseError, InvalidChecksumError],
       name = n, state = STATE_UNKNOWN, running_apps = PNone, current_app = PNone,
       get_source = gs, get_sources = gss \<rparr>"

definition source :: "FireTVDevice \<Rightarrow> pyval" where
  "source d = current_app d"

definition source_list :: "FireTVDevice \<Rightarrow> pyval" where
  "source_list d = running_apps d"

section \<open>The outside world\<close>

text \<open>
  What the wrapper \<^verbatim>\<open>_adb_command\<close> can be built around: an attribute name read with
  \<^verbatim>\<open>getattr\<close> (\<^verbatim>\<open>is_property=True\<close>), the two functions of the client library that
  \<^verbatim>\<open>async_update\<close> passes, and the bodies of the eleven decorated methods.
\<close>

datatype command =
    Prop string
  | Connect
  | Running_apps
  | Turn_on
  | Turn_off
  | Media_play
  | Media_pause
  | Media_play_pause
  | Media_stop
  | Volume_up
  | Volume_down
  | Media_previous_track
  | Media_next_track
  | Select_source

text \<open>The calls that leave the module: attribute reads and methods of the ADB client.\<close>

datatype client_call =
    GetAttr string
  | FireTV_connect
  | FireTV_running_apps
  | FireTV_turn_on
  | FireTV_turn_off
  | FireTV_media_play
  | FireTV_media_pause
  | FireTV_media_play_pause
  | FireTV_back
  | FireTV_volume_up
  | FireTV_volume_down
  | FireTV_media_previous
  | FireTV_media_next
  | FireTV_launch_app string
  | FireTV_stop_app string

text \<open>
  What a name bound by \<^verbatim>\<open>adb_command(...)\<close> holds: a wrapper \<^verbatim>\<open>_adb_command\<close> closed over
  a command, or a value that cannot be called.
\<close>

datatype callee = Wrapper command | NotCallable

text \<open>
  The collaborators that are not part of the module, as inputs. One world describes the
  surroundings during one polling cycle or one call of a method:
  \<^item> \<open>client\<close>: what each call of the ADB client returns or raises;
  \<^item> \<open>connected\<close>: the handle in place after \<^verbatim>\<open>connect\<close> has returned normally;
  \<^item> \<open>throttle\<close>: the decision of \<^verbatim>\<open>Throttle(min_time)\<close> for one call of the function it
    decorates, here \<^verbatim>\<open>adb_command\<close> with the given command. \<^verbatim>\<open>Throttle\<close> belongs to the
    hub's library (\<^verbatim>\<open>homeassistant.util\<close>), so the model takes its decision as given:
    \<open>None\<close> lets the function run; \<open>Some r\<close> suppresses the call and hands back \<open>r\<close>,
    which is a wrapper that \<^verbatim>\<open>adb_command\<close> returned earlier or a value that cannot be
    called (such as \<^verbatim>\<open>None\<close>).
\<close>

record world =
  client :: "client_call \<Rightarrow> exn + pyval"
  connected :: "nat option"
  throttle :: "nat \<Rightarrow> command \<Rightarrow> callee option"

text \<open>
  What an execution leaves behind for an observer: every evaluation of
  \<^verbatim>\<open>adb_command(c, ...)(self)\<close> by the polling cycle, every call of the ADB client, every
  error-level log line and every \<^verbatim>\<open>asyncio.sleep\<close>.
\<close>

datatype event =
    Gate command
  | Call client_call
  | LogError
  | Sleep nat

text \<open>A statement either raises or returns, and leaves a device and a trace.\<close>

type_synonym 'a outcome = "(exn + 'a) \<times> FireTVDevice \<times> event list"

definition result :: "'a outcome \<Rightarrow> exn + 'a" where
  "result r = fst r"

definition device :: "'a outcome \<Rightarrow> FireTVDevice" where
  "device r = fst (snd r)"

definition events :: "'a outcome \<Rightarrow> event list" where
  "events r = snd (snd r)"

text \<open>The connection handle that a statement leaves.\<close>

definition handle :: "'a outcome \<Rightarrow> nat option" where
  "handle r = firetv_adb (fst (snd r))"

definition bind :: "(FireTVDevice \<Rightarrow> 'a outcome) \<Rightarrow> ('a \<Rightarrow> FireTVDevice \<Rightarrow> 'b outcome)
    \<Rightarrow> FireTVDevice \<Rightarrow> 'b outcome" where
  "bind m f d =
     (case m d of
        (Inl e, d1, t1) \<Rightarrow> (Inl e, d1, t1)
      | (Inr v, d1, t1) \<Rightarrow> (case f v d1 of (r, d2, t2) \<Rightarrow> (r, d2, t1 @ t2)))"

definition assign :: "(FireTVDevice \<Rightarrow> FireTVDevice) \<Rightarrow> FireTVDevice \<Rightarrow> unit outcome" where
  "assign f d = (Inr (), f d, [])"

definition sleep :: "FireTVDevice \<Rightarrow> unit outcome" where
  "sleep d = (Inr (), d, [Sleep SLEEP_TIME])"

section \<open>The decorated methods' bodies\<close>

text \<open>A statement \<^verbatim>\<open>self._firetv.m(...)\<close>: the value is dropped, an exception travels up.\<close>

definition firetv :: "world \<Rightarrow> client_call \<Rightarrow> FireTVDevice \<Rightarrow> pyval outcome" where
  "firetv w c d =
     (case client w c of Inl e \<Rightarrow> (Inl e, d, [Call c]) | Inr v \<Rightarrow> (Inr PNone, d, [Call c]))"

text \<open>Python's \<^verbatim>\<open>str.isspace\<close> on the characters below 256, and \<^verbatim>\<open>str.lstrip()\<close>.\<close>

definition isspace :: "char \<Rightarrow> bool" where
  "isspace c = ((of_char c :: nat) \<in> {9, 10, 11, 12, 13, 28, 29, 30, 31, 32, 133, 160})"

definition lstrip :: "string \<Rightarrow> string" where
  "lstrip s = dropWhile isspace s"

definition startswith_bang :: "string \<Rightarrow> bool" where
  "startswith_bang s = (case s of [] \<Rightarrow> False | c # cs \<Rightarrow> c = CHR ''!'')"

definition select_source :: "world \<Rightarrow> pyval \<Rightarrow> FireTVDevice \<Rightarrow> pyval outcome" where
  "select_source w src d =
     (case src of
        PStr s \<Rightarrow>
          (if \<not> startswith_bang s then firetv w (FireTV_launch_app s) d
           else firetv w (FireTV_stop_app (lstrip (drop 1 s))) d)
      | _ \<Rightarrow> (Inr PNone, d, []))"

text \<open>
  \<^verbatim>\<open>getattr(self, command)\<close> or \<^verbatim>\<open>command(self, *args, **kwargs)\<close>. A property read ignores
  the arguments; a function called with the wrong number of arguments raises
  \<^verbatim>\<open>TypeError\<close>. \<^verbatim>\<open>connect\<close> leaves the handle the world gives when it returns normally.
\<close>

definition nullary :: "pyval list \<Rightarrow> FireTVDevice \<Rightarrow> pyval outcome \<Rightarrow> pyval outcome" where
  "nullary args d r = (if args = [] then r else (Inl TypeError, d, []))"

definition run_command :: "world \<Rightarrow> command \<Rightarrow> pyval list \<Rightarrow> FireTVDevice \<Rightarrow> pyval outcome" where
  "run_command w c args d =
     (case c of
        Prop n \<Rightarrow> (client w (GetAttr n), d, [Call (GetAttr n)])
      | Connect \<Rightarrow> nullary args d
          (case client w FireTV_connect of
             Inl e \<Rightarrow> (Inl e, d, [Call FireTV_connect])
           | Inr v \<Rightarrow> (Inr v, d\<lparr>firetv_adb := connected w\<rparr>, [Call FireTV_connect]))
      | Running_apps \<Rightarrow> nullary args d (client w FireTV_running_apps, d, [Call FireTV_running_apps])
      | Turn_on \<Rightarrow> nullary args d (firetv w FireTV_turn_on d)
      | Turn_off \<Rightarrow> nullary args d (firetv w FireTV_turn_off d)
      | Media_play \<Rightarrow> nullary args d (firetv w FireTV_media_play d)
      | Media_pause \<Rightarrow> nullary args d (firetv w FireTV_media_pause d)
      | Media_play_pause \<Rightarrow> nullary args d (firetv w FireTV_media_play_pause d)
      | Media_stop \<Rightarrow> nullary args d (firetv w FireTV_back d)
      | Volume_up \<Rightarrow> nullary args d (firetv w FireTV_volume_up d)
      | Volume_down \<Rightarrow> nullary args d (firetv w FireTV_volume_down d)
      | Media_previous_track \<Rightarrow> nullary args d (firetv w FireTV_media_previous d)
      | Media_next_track \<Rightarrow> nullary args d (firetv w FireTV_media_next d)
      | Select_source \<Rightarrow>
          (case args of [src] \<Rightarrow> select_source w src d | _ \<Rightarrow> (Inl TypeError, d, [])))"

section \<open>The command gate\<close>

text \<open>
  The closure \<^verbatim>\<open>_adb_command\<close> (lines 97 to 114): run the command; on an exception of
  \<^verbatim>\<open>self._exceptions\<close> log one error, return \<^verbatim>\<open>None\<close> and drop the handle; any other
  exception travels up.
\<close>

definition adb_command_wrapper :: "command \<Rightarrow> pyval list \<Rightarrow> world \<Rightarrow> FireTVDevice \<Rightarrow> pyval outcome" where
  "adb_command_wrapper c args w d =
     (case run_command w c args d of
        (Inr v, d1, t) \<Rightarrow> (Inr v, d1, t)
      | (Inl e, d1, t) \<Rightarrow>
          (if e \<in> set (exceptions d1)
           then (Inr PNone, d1\<lparr>firetv_adb := None\<rparr>, t @ [LogError])
           else (Inl e, d1, t)))"

text \<open>
  \<^verbatim>\<open>adb_command\<close> as decorated in line 93: \<^verbatim>\<open>Throttle(MIN_TIME)\<close> stands in front of the
  function that builds the wrapper, so a call \<^verbatim>\<open>adb_command(c, ...)\<close> yields the wrapper
  for \<open>c\<close> when the throttle lets it run, and whatever the throttle hands back otherwise.
\<close>

definition adb_command :: "world \<Rightarrow> command \<Rightarrow> callee" where
  "adb_command w c = (case throttle w MIN_TIME c of None \<Rightarrow> Wrapper c | Some r \<Rightarrow> r)"

text \<open>
  Calling what \<^verbatim>\<open>adb_command\<close> returned. Calling a value that is not callable raises
  \<^verbatim>\<open>TypeError\<close> at the call site, outside the wrapper's \<^verbatim>\<open>try\<close>.
\<close>

definition call :: "callee \<Rightarrow> pyval list \<Rightarrow> world \<Rightarrow> FireTVDevice \<Rightarrow> pyval outcome" where
  "call f args w d =
     (case f of
        Wrapper c \<Rightarrow> adb_command_wrapper c args w d
      | NotCallable \<Rightarrow> (Inl TypeError, d, []))"

text \<open>The expression \<^verbatim>\<open>adb_command(c, ...)(self)\<close> of the polling cycle.\<close>

definition gated :: "world \<Rightarrow> command \<Rightarrow> FireTVDevice \<Rightarrow> pyval outcome" where
  "gated w c d = (case call (adb_command w c) [] w d of (r, d1, t) \<Rightarrow> (r, d1, Gate c # t))"

section \<open>The polling cycle\<close>

text \<open>
  Lines 220 to 223: the identifier of the current app is the \<^verbatim>\<open>'package'\<close> entry when the
  value read is a dictionary that has one, and the value itself otherwise.
\<close>

definition package_of :: "pyval \<Rightarrow> pyval" where
  "package_of v =
     (case v of
        PDict kvs \<Rightarrow> (case map_of kvs ''package'' of Some p \<Rightarrow> p | None \<Rightarrow> v)
      | _ \<Rightarrow> v)"

text \<open>Lines 210 to 213: get the running apps.\<close>

definition get_running_apps :: "world \<Rightarrow> FireTVDevice \<Rightarrow> unit outcome" where
  "get_running_apps w d =
     (if get_sources d
      then bind (gated w Running_apps) (\<lambda>v.
           bind (assign (\<lambda>d. d\<lparr>running_apps := v\<rparr>)) (\<lambda>_. sleep)) d
      else (Inr (), d, []))"

text \<open>Lines 225 to 230: show the current app as the only running app.\<close>

definition only_running_app :: "FireTVDevice \<Rightarrow> FireTVDevice" where
  "only_running_app d =
     (if \<not> get_sources d
      then (if truthy (current_app d) then d\<lparr>running_apps := PList [current_app d]\<rparr>
            else d\<lparr>running_apps := PNone\<rparr>)
      else d)"

text \<open>Lines 232 to 243: the launcher, then the wake lock.\<close>

definition launcher_or_wake_lock :: "world \<Rightarrow> FireTVDevice \<Rightarrow> unit outcome" where
  "launcher_or_wake_lock w d =
     (if current_app d \<in> set [PStr PACKAGE_LAUNCHER, PStr PACKAGE_SETTINGS]
      then assign (\<lambda>d. d\<lparr>state := STATE_STANDBY\<rparr>) d
      else bind (gated w (Prop ''_wake_lock'')) (\<lambda>wl.
             if truthy wl then assign (\<lambda>d. d\<lparr>state := STATE_PLAYING\<rparr>)
             else assign (\<lambda>d. d\<lparr>state := STATE_PAUSED\<rparr>)) d)"

text \<open>Lines 217 to 248: the branch \<^verbatim>\<open>if self._get_source\<close>.\<close>

definition get_current_app :: "world \<Rightarrow> FireTVDevice \<Rightarrow> unit outcome" where
  "get_current_app w =
     bind (gated w (Prop ''current_app'')) (\<lambda>ca.
     bind sleep (\<lambda>_.
     bind (assign (\<lambda>d. d\<lparr>current_app := package_of ca\<rparr>)) (\<lambda>_.
     bind (assign only_running_app) (\<lambda>_.
     bind (launcher_or_wake_lock w) (\<lambda>_. sleep)))))"

text \<open>Lines 251 to 259: the current app is not fetched.\<close>

definition wake_lock_only :: "world \<Rightarrow> FireTVDevice \<Rightarrow> unit outcome" where
  "wake_lock_only w =
     bind (gated w (Prop ''_wake_lock'')) (\<lambda>wl.
     bind (if truthy wl then assign (\<lambda>d. d\<lparr>state := STATE_PLAYING\<rparr>)
           else assign (\<lambda>d. d\<lparr>state := STATE_STANDBY\<rparr>)) (\<lambda>_. sleep))"

text \<open>Lines 209 to 259: the device is on and awake.\<close>

definition on_and_awake :: "world \<Rightarrow> FireTVDevice \<Rightarrow> unit outcome" where
  "on_and_awake w =
     bind (get_running_apps w) (\<lambda>_ d.
       if get_source d then get_current_app w d else wake_lock_only w d)"

definition cleared :: "playback \<Rightarrow> FireTVDevice \<Rightarrow> FireTVDevice" where
  "cleared s d = d\<lparr>state := s, running_apps := PNone, current_app := PNone\<rparr>"

definition async_update :: "world \<Rightarrow> FireTVDevice \<Rightarrow> unit outcome" where
  "async_update w d =
     (if firetv_adb d = None
      then bind (assign (cleared STATE_UNKNOWN)) (\<lambda>_.
           bind (gated w Connect) (\<lambda>_. sleep)) d
      else bind (gated w (Prop ''_screen_on'')) (\<lambda>screen_on.
             if \<not> truthy screen_on
             then bind sleep (\<lambda>_. assign (cleared STATE_OFF))
             else bind sleep (\<lambda>_.
                  bind (gated w (Prop ''_awake'')) (\<lambda>awake.
                    if \<not> truthy awake
                    then bind sleep (\<lambda>_. assign (cleared STATE_IDLE))
                    else bind sleep (\<lambda>_. on_and_awake w)))) d)"

section \<open>The action methods\<close>

definition actions :: "command list" where
  "actions = [Turn_on, Turn_off, Media_play, Media_pause, Media_play_pause, Media_stop,
              Volume_up, Volume_down, Media_previous_track, Media_next_track, Select_source]"

text \<open>
  \<^verbatim>\<open>@adb_command\<close> above a method binds the method's name to what \<^verbatim>\<open>adb_command\<close> returned
  when the class was created, in the world \<open>w0\<close> of that moment; \<open>invoke\<close> is a later call
  \<^verbatim>\<open>device.a(*args)\<close>.
\<close>

definition bound_method :: "world \<Rightarrow> command \<Rightarrow> callee" where
  "bound_method w0 a = adb_command w0 a"

definition invoke :: "world \<Rightarrow> command \<Rightarrow> pyval list \<Rightarrow> world \<Rightarrow> FireTVDevice \<Rightarrow> pyval outcome" where
  "invoke w0 a args w d = call (bound_method w0 a) args w d"

text \<open>A life of the device: polling cycles and calls of action methods, one after the other.\<close>

datatype step = Poll world | Act command "pyval list" world

fun run :: "world \<Rightarrow> step list \<Rightarrow> FireTVDevice \<Rightarrow> FireTVDevice" where
  "run w0 [] d = d"
| "run w0 (Poll w # ss) d = run w0 ss (device (async_update w d))"
| "run w0 (Act a args w # ss) d = run w0 ss (device (invoke w0 a args w d))"

section \<open>Vocabulary of the properties\<close>

text \<open>
  The value that the guarded read of \<open>c\<close> returns to the polling cycle, \<open>None\<close> when an
  exception leaves it instead. A guarded call changes nothing of the device but the handle
  and does not depend on the handle, so the device \<open>d\<close> at the start of the cycle serves
  for every read of the cycle.
\<close>

definition reading :: "world \<Rightarrow> FireTVDevice \<Rightarrow> command \<Rightarrow> pyval option" where
  "reading w d c = (case result (gated w c d) of Inr v \<Rightarrow> Some v | Inl e \<Rightarrow> None)"

definition gated_handle :: "world \<Rightarrow> command \<Rightarrow> FireTVDevice \<Rightarrow> nat option" where
  "gated_handle w c d = firetv_adb (device (gated w c d))"

definition gated_events :: "world \<Rightarrow> command \<Rightarrow> FireTVDevice \<Rightarrow> event list" where
  "gated_events w c d = events (gated w c d)"

text \<open>The guarded calls that the polling cycle issued, and the calls that reached the client.\<close>

fun gates :: "event list \<Rightarrow> command list" where
  "gates [] = []"
| "gates (Gate c # es) = c # gates es"
| "gates (e # es) = gates es"

fun calls :: "event list \<Rightarrow> client_call list" where
  "calls [] = []"
| "calls (Call c # es) = c # calls es"
| "calls (e # es) = calls es"


text \<open>The current app stays unset: the invariant of a device that does not fetch it.\<close>

definition no_source :: "FireTVDevice \<Rightarrow> bool" where
  "no_source d = (\<not> get_source d \<and> current_app d = PNone)"

subsection \<open>Sample devices and worlds\<close>

definition fire_tv :: "bool \<Rightarrow> bool \<Rightarrow> nat option \<Rightarrow> FireTVDevice" where
  "fire_tv gs gss a = init ''192.168.0.20:5555'' ''Amazon Fire TV'' [] gs gss a"

text \<open>
  A client that answers the four property reads with the given screen-on, awake and
  wake-lock flags and the given foreground app, and lists that app as running.
\<close>

definition answers :: "bool \<Rightarrow> bool \<Rightarrow> bool \<Rightarrow> string \<Rightarrow> client_call \<Rightarrow> exn + pyval" where
  "answers so aw wl app c =
     (case c of
        GetAttr n \<Rightarrow>
          (if n = ''_screen_on'' then Inr (PBool so)
           else if n = ''_awake'' then Inr (PBool aw)
           else if n = ''_wake_lock'' then Inr (PBool wl)
           else if n = ''current_app'' then Inr (PDict [(''package'', PStr app)])
           else Inl AttributeError)
      | FireTV_running_apps \<Rightarrow> Inr (PList [PStr app])
      | _ \<Rightarrow> Inr PNone)"

definition raising :: "exn \<Rightarrow> client_call \<Rightarrow> exn + pyval" where
  "raising e c = Inl e"

text \<open>A world with the given client in which the throttle always decides \<open>t\<close>.\<close>

definition answering :: "(client_call \<Rightarrow> exn + pyval) \<Rightarrow> callee option \<Rightarrow> world" where
  "answering f t = \<lparr>client = f, connected = Some 2, throttle = (\<lambda>_ _. t)\<rparr>"

section \<open>What a guarded call can change\<close>

lemma gates_append: "gates (xs @ ys) = gates xs @ gates ys"
  by (induction xs rule: gates.induct) simp_all

lemma calls_append: "calls (xs @ ys) = calls xs @ calls ys"
  by (induction xs rule: calls.induct) simp_all

lemma outcome_eqI:
  "result r = a \<Longrightarrow> device r = b \<Longrightarrow> events r = c \<Longrightarrow> r = (a, b, c)"
  by (cases r) (simp add: result_def device_def events_def)

text \<open>The underlying operation touches nothing of the device but the handle.\<close>

lemma run_command_device:
  "device (run_command w c args d) = d\<lparr>firetv_adb := handle (run_command w c args d)\<rparr>"
  by (cases c; cases args)
     (auto simp: run_command_def nullary_def firetv_def select_source_def device_def handle_def
           split: sum.splits list.splits pyval.splits)

lemma run_command_result:
  "result (run_command w c args d') = result (run_command w c args d)"
  by (cases c; cases args)
     (auto simp: run_command_def nullary_def firetv_def select_source_def result_def
           split: sum.splits list.splits pyval.splits)

lemma run_command_events:
  "events (run_command w c args d') = events (run_command w c args d)"
  by (cases c; cases args)
     (auto simp: run_command_def nullary_def firetv_def select_source_def events_def
           split: sum.splits list.splits pyval.splits)

lemma run_command_gates:
  "gates (events (run_command w c args d)) = []"
  by (cases c; cases args)
     (auto simp: run_command_def nullary_def firetv_def select_source_def events_def
           split: sum.splits list.splits pyval.splits)

lemma run_command_no_log:
  "LogError \<notin> set (events (run_command w c args d))"
  by (cases c; cases args)
     (auto simp: run_command_def nullary_def firetv_def select_source_def events_def
           split: sum.splits list.splits pyval.splits)

lemma run_command_count_log:
  "count_list (events (run_command w c args d)) LogError = 0"
  using run_command_no_log [of w c args d] by (simp add: count_list_0_iff)

lemma run_command_raises_device:
  "result (run_command w c args d) = Inl e \<Longrightarrow> device (run_command w c args d) = d"
  by (cases c; cases args)
     (auto simp: run_command_def nullary_def firetv_def select_source_def result_def device_def
           split: sum.splits list.splits pyval.splits if_splits)

lemma action_run_device:
  "a \<in> set actions \<Longrightarrow> device (run_command w a args d) = d"
  by (cases args)
     (auto simp: actions_def run_command_def nullary_def firetv_def select_source_def device_def
           split: sum.splits list.splits pyval.splits)

text \<open>The wrapper in terms of the three components of what the operation did.\<close>

lemma wrapper_unfold:
  "adb_command_wrapper c args w d =
     (case result (run_command w c args d) of
        Inr v \<Rightarrow> (Inr v, device (run_command w c args d), events (run_command w c args d))
      | Inl e \<Rightarrow>
          (if e \<in> set (exceptions d)
           then (Inr PNone, (device (run_command w c args d))\<lparr>firetv_adb := None\<rparr>,
                 events (run_command w c args d) @ [LogError])
           else (Inl e, device (run_command w c args d), events (run_command w c args d))))"
proof -
  obtain r d1 t where rc: "run_command w c args d = (r, d1, t)"
    by (cases "run_command w c args d") auto
  have "exceptions (device (run_command w c args d)) = exceptions d"
    by (simp add: run_command_device)
  then have "exceptions d1 = exceptions d"
    using rc by (simp add: device_def)
  with rc show ?thesis
    by (simp add: adb_command_wrapper_def result_def device_def events_def split: sum.splits)
qed

lemma wrapper_device:
  "device (adb_command_wrapper c args w d) = d\<lparr>firetv_adb := handle (adb_command_wrapper c args w d)\<rparr>"
  by (simp add: wrapper_unfold run_command_device device_def [of "(a, b)" for a b]
        handle_def [of "(a, b)" for a b] split: sum.splits)

lemma wrapper_result:
  "exceptions d' = exceptions d \<Longrightarrow>
   result (adb_command_wrapper c args w d') = result (adb_command_wrapper c args w d)"
  by (simp add: wrapper_unfold run_command_result [of w c args d' d] result_def [of "(a, b)" for a b]
           split: sum.splits)

lemma wrapper_events:
  "exceptions d' = exceptions d \<Longrightarrow>
   events (adb_command_wrapper c args w d') = events (adb_command_wrapper c args w d)"
  by (simp add: wrapper_unfold run_command_result [of w c args d' d]
        run_command_events [of w c args d' d] events_def [of "(a, b)" for a b]
           split: sum.splits)

lemma wrapper_gates: "gates (events (adb_command_wrapper c args w d)) = []"
  by (simp add: wrapper_unfold events_def [of "(a, b)" for a b] gates_append run_command_gates
           split: sum.splits)

lemma call_device:
  "device (call f args w d) = d\<lparr>firetv_adb := handle (call f args w d)\<rparr>"
  by (cases f) (simp_all add: call_def wrapper_device device_def [of "(a, b)" for a b]
        handle_def [of "(a, b)" for a b])

lemma call_result:
  "exceptions d' = exceptions d \<Longrightarrow> result (call f args w d') = result (call f args w d)"
  by (cases f) (simp_all add: call_def wrapper_result [of d' d] result_def [of "(a, b)" for a b])

lemma call_events:
  "exceptions d' = exceptions d \<Longrightarrow> events (call f args w d') = events (call f args w d)"
  by (cases f) (simp_all add: call_def wrapper_events [of d' d] events_def [of "(a, b)" for a b])

lemma call_gates: "gates (events (call f args w d)) = []"
  by (cases f) (simp_all add: call_def wrapper_gates events_def [of "(a, b)" for a b])

lemma gated_unfold:
  "gated w c d = (result (call (adb_command w c) [] w d), device (call (adb_command w c) [] w d),
                  Gate c # events (call (adb_command w c) [] w d))"
  by (simp add: gated_def result_def device_def events_def split: prod.splits)

lemma gated_device:
  "device (gated w c d) = d\<lparr>firetv_adb := handle (gated w c d)\<rparr>"
  by (simp add: gated_unfold call_device device_def [of "(a, b)" for a b] handle_def [of "(a, b)" for a b])

lemma gated_result:
  "exceptions d' = exceptions d \<Longrightarrow> result (gated w c d') = result (gated w c d)"
  by (simp add: gated_unfold result_def [of "(a, b)" for a b] call_result [of d' d])

lemma gated_events_same:
  "exceptions d' = exceptions d \<Longrightarrow> events (gated w c d') = events (gated w c d)"
  by (simp add: gated_unfold events_def [of "(a, b)" for a b] call_events [of d' d])

lemma gated_gates: "gates (events (gated w c d)) = [c]"
  by (simp add: gated_unfold events_def [of "(a, b)" for a b] call_gates)

lemma gated_events_gates: "gates (gated_events w c d) = [c]"
  by (simp add: gated_events_def gated_gates)

text \<open>
  A guarded call on any later device of the same cycle, as a rewrite rule: its value and
  its trace are those on the device \<open>d\<close> the cycle started with.
\<close>

lemma gated_as:
  assumes "result (gated w c d) = r" and "exceptions d' = exceptions d"
  shows "gated w c d' = (r, d'\<lparr>firetv_adb := gated_handle w c d'\<rparr>, gated_events w c d)"
proof (rule outcome_eqI)
  show "result (gated w c d') = r"
    using gated_result [OF assms(2)] assms(1) by simp
  have "gated_handle w c d' = handle (gated w c d')"
    by (simp add: gated_handle_def handle_def device_def)
  then show "device (gated w c d') = d'\<lparr>firetv_adb := gated_handle w c d'\<rparr>"
    by (simp only: gated_device)
  show "events (gated w c d') = gated_events w c d"
    using gated_events_same [OF assms(2)] by (simp add: gated_events_def)
qed




lemma gated_calls_unthrottled:
  assumes "throttle w MIN_TIME c = None"
  shows "calls (gated_events w c d) = calls (events (run_command w c [] d))"
  using assms
  by (cases "run_command w c [] d")
     (auto simp: gated_events_def gated_def adb_command_def call_def adb_command_wrapper_def
        events_def calls_append split: sum.splits)



section \<open>The branches of the polling cycle\<close>

lemma async_update_disconnected:
  "firetv_adb d = None \<Longrightarrow>
   async_update w d =
     bind (assign (cleared STATE_UNKNOWN)) (\<lambda>_. bind (gated w Connect) (\<lambda>_. sleep)) d"
  by (simp add: async_update_def)


lemmas cycle_defs = on_and_awake_def get_running_apps_def get_current_app_def
  wake_lock_only_def launcher_or_wake_lock_def only_running_app_def cleared_def
  bind_def assign_def sleep_def

lemmas outcome_defs = result_def [of "(a, b)" for a b] device_def [of "(a, b)" for a b]
  events_def [of "(a, b)" for a b]

lemmas gate_defs = reading_def result_def device_def events_def gated_def adb_command_def call_def
  adb_command_wrapper_def run_command_def nullary_def firetv_def select_source_def

lemmas sample_defs = answering_def answers_def raising_def fire_tv_def init_def

section \<open>A device that does not fetch the current app\<close>

lemma bind_keeps:
  assumes "\<And>d. I d \<Longrightarrow> I (device (m d))" and "\<And>v d. I d \<Longrightarrow> I (device (f v d))" and "I d"
  shows "I (device (bind m f d))"
proof -
  obtain r d1 t1 where m: "m d = (r, d1, t1)" by (cases "m d") auto
  have d1: "I d1" using assms(1) [OF assms(3)] m by (simp add: device_def)
  show ?thesis
  proof (cases r)
    case (Inl e)
    with m d1 show ?thesis by (simp add: bind_def device_def)
  next
    case (Inr v)
    obtain r2 d2 t2 where f: "f v d1 = (r2, d2, t2)" by (cases "f v d1") auto
    have "I d2" using assms(2) [OF d1, of v] f by (simp add: device_def)
    with m Inr f show ?thesis by (simp add: bind_def device_def)
  qed
qed

lemma gated_no_source: "no_source d \<Longrightarrow> no_source (device (gated w c d))"
  by (simp add: gated_device no_source_def)

lemma sleep_no_source: "no_source d \<Longrightarrow> no_source (device (sleep d))"
  by (simp add: sleep_def device_def)

lemma cleared_no_source: "no_source d \<Longrightarrow> no_source (device (assign (cleared s) d))"
  by (simp add: assign_def cleared_def device_def no_source_def)

lemma state_no_source: "no_source d \<Longrightarrow> no_source (device (assign (\<lambda>d. d\<lparr>state := s\<rparr>) d))"
  by (simp add: assign_def device_def no_source_def)

lemma apps_no_source: "no_source d \<Longrightarrow> no_source (device (assign (\<lambda>d. d\<lparr>running_apps := v\<rparr>) d))"
  by (simp add: assign_def device_def no_source_def)

lemma get_running_apps_no_source: "no_source d \<Longrightarrow> no_source (device (get_running_apps w d))"
  unfolding get_running_apps_def
  by (auto simp: device_def [of "(a, b)" for a b]
        intro!: bind_keeps [where I = no_source] gated_no_source sleep_no_source apps_no_source)

lemma wake_lock_only_no_source: "no_source d \<Longrightarrow> no_source (device (wake_lock_only w d))"
  unfolding wake_lock_only_def
  by (auto intro!: bind_keeps [where I = no_source] gated_no_source sleep_no_source state_no_source)

lemma branch_no_source:
  assumes "no_source x"
  shows "no_source (device (if get_source x then get_current_app w x else wake_lock_only w x))"
proof -
  from assms have "\<not> get_source x" by (simp add: no_source_def)
  with assms show ?thesis by (simp add: wake_lock_only_no_source)
qed

lemma on_and_awake_no_source:
  assumes "no_source d"
  shows "no_source (device (on_and_awake w d))"
  unfolding on_and_awake_def
  by (rule bind_keeps [where I = no_source])
     (simp_all add: get_running_apps_no_source branch_no_source assms)

lemma async_update_no_source: "no_source d \<Longrightarrow> no_source (device (async_update w d))"
  unfolding async_update_def
  by (auto intro!: bind_keeps [where I = no_source] gated_no_source sleep_no_source
        cleared_no_source on_and_awake_no_source)

lemma invoke_no_source: "no_source d \<Longrightarrow> no_source (device (invoke w0 a args w d))"
  by (simp add: invoke_def call_device no_source_def)

lemma run_no_source: "no_source d \<Longrightarrow> no_source (run w0 ss d)"
  by (induction w0 ss d rule: run.induct) (simp_all add: async_update_no_source invoke_no_source)

section \<open>The command gate: throttle and faults\<close>




text \<open>
  Claim C2. When the operation that the wrapper runs raises an exception of the recognised
  set, the wrapper returns \<^verbatim>\<open>None\<close>, no exception leaves it, the handle is \<^verbatim>\<open>None\<close>
  afterwards and exactly one error line is logged; when it raises any other exception, that
  exception leaves the wrapper and the handle is as it was.
\<close>

theorem wrapper_fault_contract:
  assumes "exceptions d = [TypeError, ValueError, AttributeError, BrokenPipeError,
                           InvalidCommandError, InvalidResponseError, InvalidChecksumError]"
    and "result (run_command w c args d) = Inl e"
  shows "(e \<in> {TypeError, ValueError, AttributeError, BrokenPipeError,
               InvalidCommandError, InvalidResponseError, InvalidChecksumError} \<longrightarrow>
            result (adb_command_wrapper c args w d) = Inr PNone
          \<and> firetv_adb (device (adb_command_wrapper c args w d)) = None
          \<and> count_list (events (adb_command_wrapper c args w d)) LogError = 1)
       \<and> (e \<notin> {TypeError, ValueError, AttributeError, BrokenPipeError,
               InvalidCommandError, InvalidResponseError, InvalidChecksumError} \<longrightarrow>
            result (adb_command_wrapper c args w d) = Inl e
          \<and> firetv_adb (device (adb_command_wrapper c args w d)) = firetv_adb d)"
  using assms run_command_raises_device [OF assms(2)] run_command_count_log [of w c args d]
  by (simp add: wrapper_unfold outcome_defs)

theorem wrapper_fault_contract_witness:
  "result (run_command (answering (raising BrokenPipeError) None) (Prop ''_awake'') []
      (fire_tv True True (Some 1))) = Inl BrokenPipeError
   \<and> result (adb_command_wrapper (Prop ''_awake'') [] (answering (raising BrokenPipeError) None)
      (fire_tv True True (Some 1))) = Inr PNone
   \<and> firetv_adb (device (adb_command_wrapper (Prop ''_awake'') []
      (answering (raising BrokenPipeError) None) (fire_tv True True (Some 1)))) = None
   \<and> count_list (events (adb_command_wrapper (Prop ''_awake'') []
      (answering (raising BrokenPipeError) None) (fire_tv True True (Some 1)))) LogError = 1
   \<and> result (run_command (answering (raising (OtherException ''OSError'')) None) (Prop ''_awake'') []
      (fire_tv True True (Some 1))) = Inl (OtherException ''OSError'')
   \<and> result (adb_command_wrapper (Prop ''_awake'') []
      (answering (raising (OtherException ''OSError'')) None) (fire_tv True True (Some 1)))
        = Inl (OtherException ''OSError'')
   \<and> firetv_adb (device (adb_command_wrapper (Prop ''_awake'') []
      (answering (raising (OtherException ''OSError'')) None) (fire_tv True True (Some 1)))) = Some 1"
proof -
  let ?d = "fire_tv True True (Some 1)"
  have e: "exceptions ?d =
      [TypeError, ValueError, AttributeError, BrokenPipeError,
       InvalidCommandError, InvalidResponseError, InvalidChecksumError]"
    by (simp add: fire_tv_def init_def)
  have a: "firetv_adb ?d = Some 1"
    by (simp add: fire_tv_def init_def)
  have r1: "result (run_command (answering (raising BrokenPipeError) None) (Prop ''_awake'') [] ?d)
     = Inl BrokenPipeError"
    by (simp add: run_command_def result_def answering_def raising_def)
  have r2: "result (run_command (answering (raising (OtherException ''OSError'')) None)
     (Prop ''_awake'') [] ?d) = Inl (OtherException ''OSError'')"
    by (simp add: run_command_def result_def answering_def raising_def)
  from wrapper_fault_contract [OF e r1] wrapper_fault_contract [OF e r2] r1 r2 a
  show ?thesis by simp
qed

section \<open>The polling cycle: the state table\<close>







text \<open>
  Claim C6. In a polling cycle with the handle absent: the state is Unknown, the current
  app and the source list are \<^verbatim>\<open>None\<close>, and the cycle issues exactly one guarded call,
  the one of \<^verbatim>\<open>connect\<close>, so no guarded read of screen-on, awake, the apps or the wake
  lock; when the throttle lets the wrapper be built, the client is called exactly once,
  with \<^verbatim>\<open>connect\<close>.
\<close>

theorem disconnected_cycle_reconnects_once:
  assumes "firetv_adb d = None"
  shows "state (device (async_update w d)) = STATE_UNKNOWN
       \<and> current_app (device (async_update w d)) = PNone
       \<and> running_apps (device (async_update w d)) = PNone
       \<and> gates (events (async_update w d)) = [Connect]
       \<and> (throttle w MIN_TIME Connect = None \<longrightarrow>
            calls (events (async_update w d)) = [FireTV_connect])"
proof -
  obtain r where r: "result (gated w Connect d) = r" by blast
  have run: "calls (events (run_command w Connect [] d')) = [FireTV_connect]" for d'
    by (simp add: run_command_def nullary_def events_def split: sum.splits)
  show ?thesis
    by (cases r)
       (simp_all add: async_update_disconnected [OF assms] cycle_defs outcome_defs
          gates_append calls_append gated_events_gates gated_as [OF r] gated_calls_unthrottled run)
qed

theorem disconnected_cycle_reconnects_once_witness:
  "firetv_adb (fire_tv True True None) = None
   \<and> throttle (answering (answers True True True ''com.netflix.ninja'') None) MIN_TIME Connect = None
   \<and> state (device (async_update (answering (answers True True True ''com.netflix.ninja'') None)
        (fire_tv True True None))) = STATE_UNKNOWN
   \<and> gates (events (async_update (answering (answers True True True ''com.netflix.ninja'') None)
        (fire_tv True True None))) = [Connect]
   \<and> calls (events (async_update (answering (answers True True True ''com.netflix.ninja'') None)
        (fire_tv True True None))) = [FireTV_connect]"
proof -
  have a: "firetv_adb (fire_tv True True None) = None" by (simp add: sample_defs)
  have t: "throttle (answering (answers True True True ''com.netflix.ninja'') None) MIN_TIME Connect = None"
    by (simp add: answering_def)
  from disconnected_cycle_reconnects_once [OF a, of "answering (answers True True True ''com.netflix.ninja'') None"] a t
  show ?thesis by simp
qed



section \<open>The action methods\<close>



text \<open>
  Claim C9. Calling any of the eleven action methods, with any arguments, on any device
  leaves the stored state, the current app and the source list as they were; when the
  method is the wrapper of its body, the device is as before or differs only in that the
  handle is \<^verbatim>\<open>None\<close>.
\<close>

theorem actions_keep_state_and_sources:
  assumes "a \<in> set actions"
  shows "state (device (invoke w0 a args w d)) = state d
       \<and> current_app (device (invoke w0 a args w d)) = current_app d
       \<and> running_apps (device (invoke w0 a args w d)) = running_apps d
       \<and> (throttle w0 MIN_TIME a = None \<longrightarrow>
            device (invoke w0 a args w d) = d \<or> device (invoke w0 a args w d) = d\<lparr>firetv_adb := None\<rparr>)"
proof -
  have "throttle w0 MIN_TIME a = None \<Longrightarrow>
        device (invoke w0 a args w d) = d \<or> device (invoke w0 a args w d) = d\<lparr>firetv_adb := None\<rparr>"
    using action_run_device [OF assms, of w args d]
    by (simp add: invoke_def bound_method_def adb_command_def call_def wrapper_unfold
          device_def [of "(a, b)" for a b] split: sum.splits)
  then show ?thesis
    by (simp add: invoke_def call_device)
qed

theorem actions_keep_state_and_sources_witness:
  "Media_pause \<in> set actions
   \<and> throttle (answering (raising BrokenPipeError) None) MIN_TIME Media_pause = None
   \<and> state (device (invoke (answering (raising BrokenPipeError) None) Media_pause []
        (answering (raising BrokenPipeError) None) (fire_tv True True (Some 1)))) = STATE_UNKNOWN
   \<and> device (invoke (answering (raising BrokenPipeError) None) Media_pause []
        (answering (raising BrokenPipeError) None) (fire_tv True True (Some 1)))
       = (fire_tv True True (Some 1))\<lparr>firetv_adb := None\<rparr>"
proof -
  let ?w = "answering (raising BrokenPipeError) None" and ?d = "fire_tv True True (Some 1)"
  have a: "Media_pause \<in> set actions" by (simp add: actions_def)
  have t: "throttle ?w MIN_TIME Media_pause = None" by (simp add: answering_def)
  have s: "state ?d = STATE_UNKNOWN" by (simp add: sample_defs)
  have n: "device (invoke ?w Media_pause [] ?w ?d) \<noteq> ?d"
    by (simp add: invoke_def bound_method_def gate_defs sample_defs)
  from actions_keep_state_and_sources [OF a, of ?w "[]" ?w ?d] a t s n
  show ?thesis by simp
qed

text \<open>
  Claim C10. A device constructed with the current-app toggle off has the \<^verbatim>\<open>source\<close>
  property \<^verbatim>\<open>None\<close> after construction and after every sequence of polling cycles and
  calls of action methods, in whatever worlds they run.
\<close>

theorem source_stays_unset:
  "source (run w0 ss (init h n k False gss a)) = PNone"
proof -
  have "no_source (init h n k False gss a)"
    by (simp add: no_source_def init_def)
  then have "no_source (run w0 ss (init h n k False gss a))"
    by (rule run_no_source)
  then show ?thesis by (simp add: no_source_def source_def)
qed

theorem source_stays_unset_witness:
  "source (run (answering (answers True True True ''com.netflix.ninja'') None)
     [Poll (answering (answers True True True ''com.netflix.ninja'') None),
      Act Select_source [PStr ''com.netflix.ninja'']
        (answering (answers True True True ''com.netflix.ninja'') None),
      Poll (answering (raising BrokenPipeError) None)]
     (init ''192.168.0.20:5555'' ''Amazon Fire TV'' [] False True (Some 1))) = PNone"
  by (rule source_stays_unset)

end
